theory Spec2Isabelle
  imports Main
begin

section \<open>Authentication controller of the tours backend\<close>

text \<open>
  The development embeds \<^verbatim>\<open>src/controllers/authController.js\<close> and the user
  schema of \<^verbatim>\<open>src/unnamed/part_000\<close>. Handlers are functions of the request, the
  clock (\<^verbatim>\<open>Date.now()\<close>, milliseconds as an integer) and the user collection; they
  return the error handed to \<^verbatim>\<open>next\<close> or the response sent, together with the
  collection where the handler saves. External libraries and the instance methods the
  controller calls are either fields of the record \<open>deps\<close> or definitions marked as
  modelled from the spec.
\<close>

subsection \<open>Documents, requests, responses\<close>

text \<open>
  A \<open>user\<close> is the data of a user document: what is stored, what a query filters on
  and what \<^verbatim>\<open>toJSON\<close> serialises. It has every field the controller names; an absent
  one (\<^verbatim>\<open>undefined\<close>) is \<open>None\<close>. The schema declares the paths \<^verbatim>\<open>name\<close>,
  \<^verbatim>\<open>email\<close>, \<^verbatim>\<open>photo\<close>, \<^verbatim>\<open>password\<close> and \<^verbatim>\<open>passwordConfirm\<close>. The fields
  \<^verbatim>\<open>role\<close>, \<^verbatim>\<open>passwordChangedAt\<close>, \<^verbatim>\<open>passwordResetToken\<close> and
  \<^verbatim>\<open>passwordResetExpires\<close> are not declared: \<^verbatim>\<open>create\<close> drops them and \<^verbatim>\<open>save\<close>
  does not write them, so a document has one of them only if the collection was given it
  by other means. The object literal that \<^verbatim>\<open>signup\<close> hands to \<^verbatim>\<open>User.create\<close> is
  the record \<open>userFields\<close>, which a document extends.
\<close>

record userFields =
  name :: "string option"
  email :: "string option"
  password :: "string option"
  passwordConfirm :: "string option"
  passwordChangedAt :: "int option"
  role :: "string option"

record user = userFields +
  user_id :: nat
  photo :: "string option"
  passwordResetToken :: "string option"
  passwordResetExpires :: "int option"

record body =
  body_name :: "string option"
  body_email :: "string option"
  body_password :: "string option"
  body_passwordConfirm :: "string option"
  body_passwordChangedAt :: "int option"
  body_role :: "string option"
  body_passwordCurrent :: "string option"

text \<open>
  \<^verbatim>\<open>process.env\<close>, read by \<^verbatim>\<open>signToken\<close> and \<^verbatim>\<open>createAndSendToken\<close>.
  \<open>JWT_EXPIRES_IN\<close> is the time span that the configured value denotes, in seconds, the
  unit in which the token library counts; \<open>JWT_COOKIE_EXPIRES_IN\<close> is in days.
\<close>

record config =
  JWT_SECRET :: string
  JWT_EXPIRES_IN :: int
  JWT_COOKIE_EXPIRES_IN :: int
  NODE_ENV :: string

text \<open>
  A session token is symbolic: the payload (\<^verbatim>\<open>id\<close>, and \<^verbatim>\<open>iat\<close> and \<^verbatim>\<open>exp\<close> in
  whole seconds) and the secret it was signed with. \<open>Opaque\<close> is any other string
  presented as a token.
\<close>

datatype jwt = Jwt (payload_id: nat) (iat: int) (exp: int) (signed_with: string) | Opaque string

text \<open>
  What a handler hands to \<^verbatim>\<open>next\<close>: an \<^verbatim>\<open>AppError\<close>, the ValidationError of the
  schema's validators, the duplicate-key error (E11000) with which the database driver
  answers a violation of a unique index, the two errors of \<^verbatim>\<open>jwt.verify\<close>, and the
  TypeError of a method call on \<^verbatim>\<open>null\<close>.
\<close>

datatype error =
    AppError string "nat option"
  | ValidationError "string list"
  | DuplicateKeyError
  | JsonWebTokenError
  | TokenExpiredError
  | TypeError

datatype json = JStr string | JNum int | JTok jwt | JObj "(string \<times> json) list"

record cookieOptions =
  expires :: int
  httpOnly :: bool
  secure :: bool

record response =
  res_status :: nat
  res_cookie :: "(string \<times> jwt \<times> cookieOptions) option"
  res_json :: json

record mail =
  mail_email :: "string option"
  mail_subject :: string
  mail_message :: string

text \<open>
  What the controller and the schema call and \<^verbatim>\<open>src/\<close> does not define:
  \<^verbatim>\<open>validator.isEmail\<close>, the instance method \<^verbatim>\<open>correctPassword(candidate, stored)\<close>,
  the SHA-256 hex digest of \<^verbatim>\<open>crypto\<close>, and \<^verbatim>\<open>sendEmail\<close> (\<open>False\<close> when it throws).
\<close>

record deps =
  isEmail :: "string \<Rightarrow> bool"
  correctPassword :: "string option \<Rightarrow> string option \<Rightarrow> bool"
  sha256 :: "string \<Rightarrow> string"
  sendEmail :: "mail \<Rightarrow> bool"

subsection \<open>The error class and its rendering\<close>

text \<open>
  Modelled from the spec: the class \<^verbatim>\<open>AppError\<close> of \<^verbatim>\<open>utils/appError\<close> and the
  boundary that renders an error, neither under \<^verbatim>\<open>src/\<close>. An error carries a message
  and the status code given to its constructor, if any (constructor \<open>AppError\<close> above);
  the response uses "the error's numeric status code as the HTTP status" (section 6),
  an error constructed without one "defaults to 500" (section 7), and a ValidationError
  is a 400 (section 7). The rendering of the other errors is left open.
\<close>

fun statusCode :: "error \<Rightarrow> nat" where
  "statusCode (AppError m (Some c)) = c"
| "statusCode (AppError m None) = 500"
| "statusCode (ValidationError ms) = 400"

subsection \<open>The collection\<close>

text \<open>\<^verbatim>\<open>lowercase: true\<close> on the email path: the ASCII letters are folded.\<close>

definition toLowerChar :: "char \<Rightarrow> char" where
  "toLowerChar c =
     (case map_of (zip ''ABCDEFGHIJKLMNOPQRSTUVWXYZ'' ''abcdefghijklmnopqrstuvwxyz'') c of
        None \<Rightarrow> c
      | Some l \<Rightarrow> l)"

definition toLowerCase :: "string \<Rightarrow> string" where
  "toLowerCase s = map toLowerChar s"

text \<open>
  The validators of \<^verbatim>\<open>userSchema\<close>, path by path in the schema's order; each path
  reports its first failing validator. \<^verbatim>\<open>required\<close> rejects an absent or empty string;
  the other validators run on present values only.
\<close>

definition required :: "string \<Rightarrow> string option \<Rightarrow> string list" where
  "required msg v = (case v of None \<Rightarrow> [msg] | Some s \<Rightarrow> if s = [] then [msg] else [])"

definition validate_email :: "deps \<Rightarrow> string option \<Rightarrow> string list" where
  "validate_email d v =
     (if required ''A user must have an email'' v \<noteq> [] then required ''A user must have an email'' v
      else case v of None \<Rightarrow> []
           | Some s \<Rightarrow> if isEmail d s then [] else [''Please enter a valid email''])"

definition validate_password :: "string option \<Rightarrow> string list" where
  "validate_password v =
     (if required ''please enter a password'' v \<noteq> [] then required ''please enter a password'' v
      else case v of None \<Rightarrow> []
           | Some s \<Rightarrow> if length s < 8 then [''password is shorter than the minimum allowed length (8)''] else [])"

definition validate :: "deps \<Rightarrow> user \<Rightarrow> string list" where
  "validate d u =
     required ''A user must have a name'' (name u)
     @ validate_email d (email u)
     @ validate_password (password u)
     @ required ''please confirm your password'' (passwordConfirm u)"

definition fresh_id :: "user list \<Rightarrow> nat" where
  "fresh_id db = Suc (foldr max (map user_id db) 0)"

text \<open>
  \<^verbatim>\<open>User.create(fields)\<close>: the document is built from the declared paths alone (the
  schema is strict, so \<^verbatim>\<open>role\<close> and \<^verbatim>\<open>passwordChangedAt\<close> of the argument are
  dropped), the email is lower-cased by the schema's setter, and the validators run.
  \<^verbatim>\<open>unique: true\<close> is an index, not a validator: a document that passed validation
  and repeats a stored email is refused by the insert with the driver's duplicate-key
  error. The schema registers no middleware, so nothing else touches the document.
\<close>

definition create :: "deps \<Rightarrow> user list \<Rightarrow> userFields \<Rightarrow> error + (user \<times> user list)" where
  "create d db f =
     (let doc = \<lparr> name = name f, email = map_option toLowerCase (email f),
                  password = password f, passwordConfirm = passwordConfirm f,
                  passwordChangedAt = None, role = None,
                  user_id = fresh_id db, photo = None,
                  passwordResetToken = None, passwordResetExpires = None \<rparr>
      in if validate d doc \<noteq> [] then Inl (ValidationError (validate d doc))
         else if \<exists>u \<in> set db. email u = email doc
         then Inl DuplicateKeyError
         else Inr (doc, db @ [doc]))"

text \<open>
  \<^verbatim>\<open>user.save({ validateBeforeSave })\<close>: validates the document in memory unless told
  not to, then writes its declared paths to the stored document of the same \<^verbatim>\<open>_id\<close>.
  What the stored document has beyond the declared paths stays as it is.
\<close>

definition write_paths :: "user \<Rightarrow> user \<Rightarrow> user" where
  "write_paths u x =
     x\<lparr> name := name u, email := email u, photo := photo u,
        password := password u, passwordConfirm := passwordConfirm u \<rparr>"

definition save :: "deps \<Rightarrow> bool \<Rightarrow> user list \<Rightarrow> user \<Rightarrow> error + user list" where
  "save d validateBeforeSave db u =
     (if validateBeforeSave \<and> validate d u \<noteq> [] then Inl (ValidationError (validate d u))
      else Inr (map (\<lambda>x. if user_id x = user_id u then write_paths u x else x) db))"

definition findById :: "user list \<Rightarrow> nat \<Rightarrow> user option" where
  "findById db i = find (\<lambda>u. user_id u = i) db"

text \<open>
  \<^verbatim>\<open>User.findOne({ email })\<close>: the filter is cast through the schema, so the email
  asked for is lower-cased as a stored one is.
\<close>

definition findOne_email :: "user list \<Rightarrow> string option \<Rightarrow> user option" where
  "findOne_email db e = find (\<lambda>u. email u = map_option toLowerCase e) db"

text \<open>
  \<^verbatim>\<open>User.findOne({ passwordResetToken: h, passwordResetExpires: { $gt: now } })\<close>.
\<close>

definition findOne_reset :: "user list \<Rightarrow> string \<Rightarrow> int \<Rightarrow> user option" where
  "findOne_reset db h now =
     find (\<lambda>u. passwordResetToken u = Some h
               \<and> (case passwordResetExpires u of None \<Rightarrow> False | Some t \<Rightarrow> now < t)) db"

text \<open>
  An assignment to a field that the schema does not declare
  (\<^verbatim>\<open>user.passwordResetToken = v\<close>, \<^verbatim>\<open>user.passwordResetExpires = v\<close>) makes a plain
  property of the JavaScript object. The document's data is as before, and the
  controller does not read the property back.
\<close>

definition assign_passwordResetToken :: "string option \<Rightarrow> user \<Rightarrow> user" where
  "assign_passwordResetToken v u = u"

definition assign_passwordResetExpires :: "int option \<Rightarrow> user \<Rightarrow> user" where
  "assign_passwordResetExpires v u = u"

subsection \<open>The token codec\<close>

text \<open>
  \<^verbatim>\<open>jwt.sign({ id }, secret, { expiresIn })\<close> at time \<open>now\<close> and
  \<^verbatim>\<open>jwt.verify(token, secret)\<close> at time \<open>now\<close>. The library counts in whole
  seconds: it stamps \<^verbatim>\<open>iat\<close> with \<^verbatim>\<open>Math.floor(Date.now() / 1000)\<close> and \<^verbatim>\<open>exp\<close>
  with \<^verbatim>\<open>iat\<close> plus the time span, and it compares \<^verbatim>\<open>exp\<close> with the clock floored
  the same way. A token that is not a signed payload or was signed with another secret
  is rejected, then one whose expiry has been reached.
\<close>

definition jwt_sign :: "nat \<Rightarrow> string \<Rightarrow> int \<Rightarrow> int \<Rightarrow> jwt" where
  "jwt_sign i secret expiresIn now = Jwt i (now div 1000) (now div 1000 + expiresIn) secret"

fun jwt_verify :: "jwt \<Rightarrow> string \<Rightarrow> int \<Rightarrow> error + jwt" where
  "jwt_verify (Opaque s) secret now = Inl JsonWebTokenError"
| "jwt_verify (Jwt i t e k) secret now =
     (if k \<noteq> secret then Inl JsonWebTokenError
      else if e \<le> now div 1000 then Inl TokenExpiredError
      else Inr (Jwt i t e k))"

subsection \<open>Instance methods of the user model\<close>

text \<open>
  Modelled from the spec: the instance method \<^verbatim>\<open>passwordChangedAfter\<close> of the user
  model, called by \<^verbatim>\<open>protect\<close> with the token's \<^verbatim>\<open>iat\<close> and defined in no file under
  \<^verbatim>\<open>src/\<close>. Section 4.1: the request is rejected "if
  identity.passwordChangedAt > token.issuedAt"; \<^verbatim>\<open>passwordChangedAt\<close> is nullable.
  The two are compared as instants: \<^verbatim>\<open>passwordChangedAt\<close> is a date, in milliseconds,
  and \<^verbatim>\<open>iat\<close> counts seconds.
\<close>

definition passwordChangedAfter :: "user \<Rightarrow> int \<Rightarrow> bool" where
  "passwordChangedAfter u issuedAt =
     (case passwordChangedAt u of None \<Rightarrow> False | Some t \<Rightarrow> issuedAt * 1000 < t)"

text \<open>
  Modelled from the spec: the instance method \<^verbatim>\<open>createPasswordResetToken\<close> of the user
  model, called by \<^verbatim>\<open>forgotPassword\<close> and defined in no file under \<^verbatim>\<open>src/\<close>.
  Section 4.3: it "generates a cryptographically random token" (here the argument
  \<open>resetToken\<close>), sets on the identity "only hash(token) and an expiry timestamp
  (fixed window, e.g. 10 minutes)", and returns the plaintext token. Both are
  assignments to fields that the schema does not declare.
\<close>

definition createPasswordResetToken :: "deps \<Rightarrow> int \<Rightarrow> string \<Rightarrow> user \<Rightarrow> string \<times> user" where
  "createPasswordResetToken d now resetToken u =
     (resetToken,
      assign_passwordResetExpires (Some (now + 10 * 60 * 1000))
        (assign_passwordResetToken (Some (sha256 d resetToken)) u))"

subsection \<open>The controller\<close>

definition signToken :: "config \<Rightarrow> int \<Rightarrow> nat \<Rightarrow> jwt" where
  "signToken cfg now i = jwt_sign i (JWT_SECRET cfg) (JWT_EXPIRES_IN cfg) now"

text \<open>
  \<^verbatim>\<open>JSON.stringify\<close> of a document: the paths that are defined, under their names.
\<close>

definition field :: "string \<Rightarrow> string option \<Rightarrow> (string \<times> json) list" where
  "field k v = (case v of None \<Rightarrow> [] | Some s \<Rightarrow> [(k, JStr s)])"

definition date_field :: "string \<Rightarrow> int option \<Rightarrow> (string \<times> json) list" where
  "date_field k v = (case v of None \<Rightarrow> [] | Some t \<Rightarrow> [(k, JNum t)])"

definition toJSON :: "user \<Rightarrow> json" where
  "toJSON u = JObj ([(''_id'', JNum (int (user_id u)))]
     @ field ''name'' (name u) @ field ''email'' (email u) @ field ''photo'' (photo u)
     @ field ''password'' (password u) @ field ''passwordConfirm'' (passwordConfirm u)
     @ date_field ''passwordChangedAt'' (passwordChangedAt u) @ field ''role'' (role u)
     @ field ''passwordResetToken'' (passwordResetToken u)
     @ date_field ''passwordResetExpires'' (passwordResetExpires u))"

definition createAndSendToken :: "config \<Rightarrow> int \<Rightarrow> user \<Rightarrow> nat \<Rightarrow> response" where
  "createAndSendToken cfg now u code =
     (let token = signToken cfg now (user_id u);
          cookieOptions = \<lparr> expires = now + JWT_COOKIE_EXPIRES_IN cfg * 24 * 60 * 60 * 1000,
                            httpOnly = True,
                            secure = (NODE_ENV cfg = ''production'') \<rparr>;
          u' = u\<lparr> password := None \<rparr>
      in \<lparr> res_status = code,
           res_cookie = Some (''jwt'', token, cookieOptions),
           res_json = JObj [(''status'', JStr ''success''), (''token'', JTok token),
                            (''data'', JObj [(''user'', toJSON u')])] \<rparr>)"

definition signup_fields :: "body \<Rightarrow> userFields" where
  "signup_fields b =
     \<lparr> name = body_name b, email = body_email b, password = body_password b,
       passwordConfirm = body_passwordConfirm b,
       passwordChangedAt = body_passwordChangedAt b, role = body_role b \<rparr>"

definition signup :: "deps \<Rightarrow> config \<Rightarrow> int \<Rightarrow> user list \<Rightarrow> body \<Rightarrow> (error + response) \<times> user list" where
  "signup d cfg now db b =
     (case create d db (signup_fields b) of
        Inl e \<Rightarrow> (Inl e, db)
      | Inr (newUser, db') \<Rightarrow> (Inr (createAndSendToken cfg now newUser 201), db'))"

text \<open>JavaScript's \<^verbatim>\<open>!s\<close> on a string that may be absent.\<close>

definition falsy :: "string option \<Rightarrow> bool" where
  "falsy v = (case v of None \<Rightarrow> True | Some s \<Rightarrow> s = [])"

definition login :: "deps \<Rightarrow> config \<Rightarrow> int \<Rightarrow> user list \<Rightarrow> body \<Rightarrow> error + response" where
  "login d cfg now db b =
     (if falsy (body_email b) \<or> falsy (body_password b)
      then Inl (AppError ''Please provide email and password!'' (Some 400))
      else case findOne_email db (body_email b) of
             None \<Rightarrow> Inl (AppError ''Incorrect email or password!'' (Some 401))
           | Some u \<Rightarrow>
               if \<not> correctPassword d (body_password b) (password u)
               then Inl (AppError ''Incorrect email or password!'' (Some 401))
               else Inr (createAndSendToken cfg now u 200))"

text \<open>
  The \<^verbatim>\<open>Authorization\<close> header is kept as its split on \<^verbatim>\<open>" "\<close>: the leading segment
  as text and the segments after it as tokens. \<^verbatim>\<open>startsWith("Bearer")\<close> looks at the
  leading segment only, since \<^verbatim>\<open>Bearer\<close> has no space, and \<^verbatim>\<open>split(" ")[1]\<close> is the
  first of the others, if any; an empty segment is falsy.
\<close>

definition startsWith :: "string \<Rightarrow> string \<Rightarrow> bool" where
  "startsWith s p = (take (length p) s = p)"

definition bearer_token :: "(string \<times> jwt list) option \<Rightarrow> jwt option" where
  "bearer_token authorization =
     (case authorization of
        None \<Rightarrow> None
      | Some (scheme, rest) \<Rightarrow>
          if startsWith scheme ''Bearer''
          then (case rest of [] \<Rightarrow> None | t # _ \<Rightarrow> if t = Opaque [] then None else Some t)
          else None)"

definition protect :: "config \<Rightarrow> int \<Rightarrow> user list \<Rightarrow> (string \<times> jwt list) option \<Rightarrow> error + user" where
  "protect cfg now db authorization =
     (case bearer_token authorization of
        None \<Rightarrow> Inl (AppError ''You are not logged in!, please login to get access.'' (Some 401))
      | Some token \<Rightarrow>
          (case jwt_verify token (JWT_SECRET cfg) now of
             Inl e \<Rightarrow> Inl e
           | Inr decoded \<Rightarrow>
               (case findById db (payload_id decoded) of
                  None \<Rightarrow> Inl (AppError ''The user belonging to this token does no longer exsist.'' (Some 401))
                | Some currentUser \<Rightarrow>
                    if passwordChangedAfter currentUser (iat decoded)
                    then Inl (AppError ''The user recently changed their password! Please login again.'' (Some 401))
                    else Inr currentUser)))"

definition resetURL :: "string \<Rightarrow> string \<Rightarrow> string \<Rightarrow> string" where
  "resetURL protocol host resetToken =
     protocol @ ''//'' @ host @ ''/api/v1/users/resetPassword/'' @ resetToken"

definition resetMail :: "user \<Rightarrow> string \<Rightarrow> mail" where
  "resetMail u url =
     \<lparr> mail_email = email u,
       mail_subject = ''Your password resetToken (valid for 10 minutes)'',
       mail_message =
         ''Forgot your password submit a PATCH request  with your new password and password confirm''
         @ [CHR 0x0A] @ ''   to '' @ url @ ''.'' @ [CHR 0x0A]
         @ '' If you didn'' @ [CHR 0x27] @ ''t forget your password, Please ignore this email. '' \<rparr>"

definition forgotPassword ::
  "deps \<Rightarrow> int \<Rightarrow> string \<Rightarrow> string \<Rightarrow> string \<Rightarrow> user list \<Rightarrow> body \<Rightarrow> (error + response) \<times> user list" where
  "forgotPassword d now resetToken protocol host db b =
     (case findOne_email db (body_email b) of
        None \<Rightarrow> (Inl (AppError ''There is no user with that email'' None), db)
      | Some u0 \<Rightarrow>
          (let (tok, u) = createPasswordResetToken d now resetToken u0 in
           case save d False db u of
             Inl e \<Rightarrow> (Inl e, db)
           | Inr db1 \<Rightarrow>
               if sendEmail d (resetMail u (resetURL protocol host tok))
               then (Inr \<lparr> res_status = 200, res_cookie = None,
                           res_json = JObj [(''status'', JStr ''success''),
                                            (''message'', JStr ''Token sent to email!'')] \<rparr>, db1)
               else (let u' = assign_passwordResetExpires None (assign_passwordResetToken None u) in
                     case save d False db1 u' of
                       Inl e \<Rightarrow> (Inl e, db1)
                     | Inr db2 \<Rightarrow>
                         (Inl (AppError ''There was an error sending the email. Try again later '' None),
                          db2))))"

definition resetPassword ::
  "deps \<Rightarrow> config \<Rightarrow> int \<Rightarrow> user list \<Rightarrow> string \<Rightarrow> body \<Rightarrow> (error + response) \<times> user list" where
  "resetPassword d cfg now db token b =
     (let hashedToken = sha256 d token in
      case findOne_reset db hashedToken now of
        None \<Rightarrow> (Inl (AppError ''token is invalid or has expired'' None), db)
      | Some u0 \<Rightarrow>
          (let u = assign_passwordResetExpires None (assign_passwordResetToken None
                     (u0\<lparr> password := body_password b,
                         passwordConfirm := body_passwordConfirm b \<rparr>)) in
           case save d True db u of
             Inl e \<Rightarrow> (Inl e, db)
           | Inr db' \<Rightarrow> (Inr (createAndSendToken cfg now u 200), db')))"

definition updatePassword ::
  "deps \<Rightarrow> config \<Rightarrow> int \<Rightarrow> user list \<Rightarrow> user \<Rightarrow> body \<Rightarrow> (error + response) \<times> user list" where
  "updatePassword d cfg now db req_user b =
     (case findById db (user_id req_user) of
        None \<Rightarrow> (Inl TypeError, db)
      | Some u0 \<Rightarrow>
          if \<not> correctPassword d (body_passwordCurrent b) (password u0)
          then (Inl (AppError ''Your current password is wrong'' None), db)
          else (let u = u0\<lparr> password := body_password b,
                            passwordConfirm := body_passwordConfirm b \<rparr> in
                case save d True db u of
                  Inl e \<Rightarrow> (Inl e, db)
                | Inr db' \<Rightarrow> (Inr (createAndSendToken cfg now u 200), db')))"

subsection \<open>A running instance\<close>

text \<open>
  Concrete dependencies, configuration and requests on which the handlers are evaluated
  below. The password comparison of this instance is equality with the stored value,
  the digest prefixes its input, and a token lives 90 days.
\<close>

definition deps0 :: deps where
  "deps0 = \<lparr> isEmail = (\<lambda>s. CHR ''@'' \<in> set s),
             correctPassword = (\<lambda>c s. c \<noteq> None \<and> c = s),
             sha256 = (\<lambda>s. ''sha256:'' @ s),
             sendEmail = (\<lambda>m. True) \<rparr>"


definition cfg0 :: config where
  "cfg0 = \<lparr> JWT_SECRET = ''secret'', JWT_EXPIRES_IN = 7776000,
            JWT_COOKIE_EXPIRES_IN = 90, NODE_ENV = ''development'' \<rparr>"

definition amy :: body where
  "amy = \<lparr> body_name = Some ''Amy'', body_email = Some ''amy@x.com'',
           body_password = Some ''password1'', body_passwordConfirm = Some ''password1'',
           body_passwordChangedAt = None, body_role = None,
           body_passwordCurrent = None \<rparr>"

definition amy_doc :: user where
  "amy_doc = \<lparr> name = Some ''Amy'', email = Some ''amy@x.com'',
               password = Some ''password1'', passwordConfirm = Some ''password1'',
               passwordChangedAt = None, role = None, user_id = 1, photo = None,
               passwordResetToken = None, passwordResetExpires = None \<rparr>"

definition amy_pending :: user where
  "amy_pending = amy_doc\<lparr> passwordResetToken := Some ''sha256:r3s3t'',
                           passwordResetExpires := Some 700000 \<rparr>"

definition amy_pending_renewed :: user where
  "amy_pending_renewed =
     amy_pending\<lparr> password := Some ''password2'', passwordConfirm := Some ''password2'' \<rparr>"

definition amy_renewed :: user where
  "amy_renewed = amy_doc\<lparr> password := Some ''password2'', passwordConfirm := Some ''password2'' \<rparr>"

definition new_password :: body where
  "new_password = \<lparr> body_name = None, body_email = None,
           body_password = Some ''password2'', body_passwordConfirm = Some ''password2'',
           body_passwordChangedAt = None, body_role = None,
           body_passwordCurrent = Some ''password1'' \<rparr>"




definition amy_mismatch :: body where
  "amy_mismatch = amy\<lparr> body_passwordConfirm := Some ''password2'' \<rparr>"

section \<open>Properties\<close>

subsection \<open>Lookups and saves\<close>

lemma findById_Some:
  "findById db i = Some u \<Longrightarrow> user_id u = i \<and> u \<in> set db"
  unfolding findById_def by (auto simp: find_Some_iff)








lemma toLowerCase_amy: "toLowerCase ''amy@x.com'' = ''amy@x.com''"
  by (simp add: toLowerCase_def toLowerChar_def)

lemma toLowerCase_bob: "toLowerCase ''bob@x.com'' = ''bob@x.com''"
  by (simp add: toLowerCase_def toLowerChar_def)

lemma signup_amy:
  "signup deps0 cfg0 1000 [] amy = (Inr (createAndSendToken cfg0 1000 amy_doc 201), [amy_doc])"
  by (simp add: signup_def create_def signup_fields_def amy_def amy_doc_def deps0_def
      validate_def validate_email_def validate_password_def required_def toLowerCase_amy
      fresh_id_def Let_def)

lemma resetPassword_amy:
  "resetPassword deps0 cfg0 1000 [amy_pending] ''r3s3t'' new_password
     = (Inr (createAndSendToken cfg0 1000 amy_pending_renewed 200), [amy_pending_renewed])"
  by (simp add: resetPassword_def findOne_reset_def save_def write_paths_def
      assign_passwordResetToken_def assign_passwordResetExpires_def amy_pending_def amy_doc_def
      amy_pending_renewed_def new_password_def deps0_def validate_def validate_email_def
      validate_password_def required_def Let_def)

lemma updatePassword_amy:
  "updatePassword deps0 cfg0 5000 [amy_doc] amy_doc new_password
     = (Inr (createAndSendToken cfg0 5000 amy_renewed 200), [amy_renewed])"
  by (simp add: updatePassword_def findById_def save_def write_paths_def amy_doc_def
      amy_renewed_def new_password_def deps0_def validate_def validate_email_def
      validate_password_def required_def Let_def)


lemma createAndSendToken_no_password:
  "\<exists>tok fs. res_json (createAndSendToken cfg now u code) =
       JObj [(''status'', JStr ''success''), (''token'', JTok tok),
             (''data'', JObj [(''user'', JObj fs)])]
     \<and> ''password'' \<notin> fst ` set fs"
  by (auto simp: createAndSendToken_def Let_def toJSON_def field_def date_field_def
      split: option.splits)

lemma signup_Inr:
  assumes "signup d cfg now db b = (Inr r, db')"
  shows "\<exists>u. create d db (signup_fields b) = Inr (u, db') \<and> r = createAndSendToken cfg now u 201"
  using assms by (auto simp: signup_def split: sum.splits)

lemma login_Inr:
  assumes "login d cfg now db b = Inr r"
  shows "\<exists>u. findOne_email db (body_email b) = Some u \<and> r = createAndSendToken cfg now u 200"
  using assms by (auto simp: login_def split: if_splits option.splits)

lemma resetPassword_Inr:
  assumes "resetPassword d cfg now db token b = (Inr r, db')"
  shows "\<exists>u0. findOne_reset db (sha256 d token) now = Some u0
           \<and> save d True db (u0\<lparr> password := body_password b,
                                     passwordConfirm := body_passwordConfirm b \<rparr>) = Inr db'
           \<and> r = createAndSendToken cfg now
                 (u0\<lparr> password := body_password b,
                      passwordConfirm := body_passwordConfirm b \<rparr>) 200"
  using assms
  by (auto simp: resetPassword_def Let_def assign_passwordResetToken_def
      assign_passwordResetExpires_def split: option.splits sum.splits)

lemma updatePassword_Inr:
  assumes "updatePassword d cfg now db req_user b = (Inr r, db')"
  shows "\<exists>u0. findById db (user_id req_user) = Some u0
           \<and> correctPassword d (body_passwordCurrent b) (password u0)
           \<and> save d True db (u0\<lparr> password := body_password b,
                                     passwordConfirm := body_passwordConfirm b \<rparr>) = Inr db'
           \<and> r = createAndSendToken cfg now
                 (u0\<lparr> password := body_password b,
                      passwordConfirm := body_passwordConfirm b \<rparr>) 200"
  using assms by (auto simp: updatePassword_def Let_def split: option.splits sum.splits if_splits)

lemma create_Inr:
  assumes "create d db f = Inr (u, db')"
  shows "db' = db @ [u] \<and> password u = password f \<and> passwordConfirm u = passwordConfirm f
         \<and> role u = None \<and> passwordChangedAt u = None
         \<and> name u = name f \<and> email u = map_option toLowerCase (email f) \<and> validate d u = []
         \<and> (\<forall>x \<in> set db. email x \<noteq> email u)"
  using assms by (auto simp: create_def Let_def split: if_splits)

subsection \<open>Error paths of the reset flow\<close>

text \<open>
  Claim C2. In \<^verbatim>\<open>forgotPassword\<close> on an email no identity has, and in
  \<^verbatim>\<open>resetPassword\<close> on a token that no identity's pending, unexpired reset matches,
  the error handed on is built from the message alone: it carries no status code (the
  404 and the 400 are second arguments of \<^verbatim>\<open>next\<close>), the collection is untouched, and
  the error is rendered with the default status 500, not 404 or 400.
\<close>

theorem reset_flow_errors_lack_status:
  "(findOne_email db (body_email b) = None \<longrightarrow>
      forgotPassword d now resetToken protocol host db b
        = (Inl (AppError ''There is no user with that email'' None), db)
      \<and> statusCode (AppError ''There is no user with that email'' None) = 500)
   \<and> (findOne_reset db (sha256 d token) now = None \<longrightarrow>
      resetPassword d cfg now db token b'
        = (Inl (AppError ''token is invalid or has expired'' None), db)
      \<and> statusCode (AppError ''token is invalid or has expired'' None) = 500)"
  by (simp add: forgotPassword_def resetPassword_def)

theorem reset_flow_errors_lack_status_witness:
  "findOne_email [amy_doc] (body_email new_password) = None
   \<and> forgotPassword deps0 1000 ''r3s3t'' ''http:'' ''localhost'' [amy_doc] new_password
        = (Inl (AppError ''There is no user with that email'' None), [amy_doc])
   \<and> findOne_reset [amy_pending] (sha256 deps0 ''r3s3t'') 700000 = None
   \<and> resetPassword deps0 cfg0 700000 [amy_pending] ''r3s3t'' new_password
        = (Inl (AppError ''token is invalid or has expired'' None), [amy_pending])"
proof -
  have e: "findOne_email [amy_doc] (body_email new_password) = None"
    by (simp add: findOne_email_def amy_doc_def new_password_def)
  have t: "findOne_reset [amy_pending] (sha256 deps0 ''r3s3t'') 700000 = None"
    by (simp add: findOne_reset_def amy_pending_def amy_doc_def deps0_def)
  from e
    reset_flow_errors_lack_status [where db = "[amy_doc]" and b = new_password and d = deps0
      and now = 1000 and resetToken = "''r3s3t''" and protocol = "''http:''"
      and host = "''localhost''"]
  have 1: "forgotPassword deps0 1000 ''r3s3t'' ''http:'' ''localhost'' [amy_doc] new_password
        = (Inl (AppError ''There is no user with that email'' None), [amy_doc])"
    by simp
  from t
    reset_flow_errors_lack_status [where db = "[amy_pending]" and d = deps0
      and token = "''r3s3t''" and now = 700000 and cfg = cfg0 and b' = new_password]
  have 2: "resetPassword deps0 cfg0 700000 [amy_pending] ''r3s3t'' new_password
        = (Inl (AppError ''token is invalid or has expired'' None), [amy_pending])"
    by simp
  from e t 1 2 show ?thesis by simp
qed

subsection \<open>Login failures\<close>

text \<open>
  Claim C3. A login attempt that supplies an email and a password and matches no stored
  identity, because no identity has the email or because the password comparison
  fails on the identity found, fails with the same error in both cases: status 401 and
  the message \<^verbatim>\<open>Incorrect email or password!\<close>.
\<close>

theorem login_failure_is_uniform:
  assumes "\<not> falsy (body_email b)" and "\<not> falsy (body_password b)"
    and "findOne_email db (body_email b) = None
         \<or> (\<exists>u. findOne_email db (body_email b) = Some u
                 \<and> \<not> correctPassword d (body_password b) (password u))"
  shows "login d cfg now db b = Inl (AppError ''Incorrect email or password!'' (Some 401))"
  using assms by (auto simp: login_def)

theorem login_failure_is_uniform_witness:
  "login deps0 cfg0 2000 [amy_doc] (amy\<lparr> body_email := Some ''bob@x.com'' \<rparr>)
     = Inl (AppError ''Incorrect email or password!'' (Some 401))
   \<and> login deps0 cfg0 2000 [amy_doc] (amy\<lparr> body_password := Some ''wrong'' \<rparr>)
     = Inl (AppError ''Incorrect email or password!'' (Some 401))"
proof -
  have unknown: "findOne_email [amy_doc] (body_email (amy\<lparr> body_email := Some ''bob@x.com'' \<rparr>)) = None"
    by (simp add: findOne_email_def amy_doc_def toLowerCase_bob)
  have known: "findOne_email [amy_doc] (body_email (amy\<lparr> body_password := Some ''wrong'' \<rparr>)) = Some amy_doc"
    by (simp add: findOne_email_def amy_doc_def amy_def toLowerCase_amy)
  have wrong: "\<not> correctPassword deps0 (body_password (amy\<lparr> body_password := Some ''wrong'' \<rparr>)) (password amy_doc)"
    by (simp add: deps0_def amy_doc_def)
  have 1: "login deps0 cfg0 2000 [amy_doc] (amy\<lparr> body_email := Some ''bob@x.com'' \<rparr>)
     = Inl (AppError ''Incorrect email or password!'' (Some 401))"
    using unknown
      login_failure_is_uniform [where b = "amy\<lparr> body_email := Some ''bob@x.com'' \<rparr>"
        and db = "[amy_doc]" and d = deps0 and cfg = cfg0 and now = 2000]
    by (simp add: falsy_def amy_def)
  have 2: "login deps0 cfg0 2000 [amy_doc] (amy\<lparr> body_password := Some ''wrong'' \<rparr>)
     = Inl (AppError ''Incorrect email or password!'' (Some 401))"
    using known wrong
      login_failure_is_uniform [where b = "amy\<lparr> body_password := Some ''wrong'' \<rparr>"
        and db = "[amy_doc]" and d = deps0 and cfg = cfg0 and now = 2000]
    by (simp add: falsy_def amy_def)
  from 1 2 show ?thesis by simp
qed

subsection \<open>Serialized identities\<close>

text \<open>
  Claim C7. Every response sent by \<^verbatim>\<open>signup\<close>, \<^verbatim>\<open>login\<close>, \<^verbatim>\<open>resetPassword\<close> and
  \<^verbatim>\<open>updatePassword\<close> has the shape \<^verbatim>\<open>{ status, token, data: { user } }\<close>, and the
  serialized user in it has no \<^verbatim>\<open>password\<close> field.
\<close>

theorem responses_carry_no_password:
  assumes "fst (signup d cfg now db b) = Inr r
           \<or> login d cfg now db b = Inr r
           \<or> fst (resetPassword d cfg now db token b) = Inr r
           \<or> fst (updatePassword d cfg now db req_user b) = Inr r"
  shows "\<exists>tok fs. res_json r =
             JObj [(''status'', JStr ''success''), (''token'', JTok tok),
                   (''data'', JObj [(''user'', JObj fs)])]
           \<and> ''password'' \<notin> fst ` set fs"
proof -
  have "\<exists>u code. r = createAndSendToken cfg now u code"
    using assms
  proof (elim disjE)
    assume "fst (signup d cfg now db b) = Inr r"
    then obtain db' where "signup d cfg now db b = (Inr r, db')"
      by (cases "signup d cfg now db b") simp
    then show ?thesis by (blast dest: signup_Inr)
  next
    assume "login d cfg now db b = Inr r"
    then show ?thesis by (blast dest: login_Inr)
  next
    assume "fst (resetPassword d cfg now db token b) = Inr r"
    then obtain db' where "resetPassword d cfg now db token b = (Inr r, db')"
      by (cases "resetPassword d cfg now db token b") simp
    then show ?thesis by (blast dest: resetPassword_Inr)
  next
    assume "fst (updatePassword d cfg now db req_user b) = Inr r"
    then obtain db' where "updatePassword d cfg now db req_user b = (Inr r, db')"
      by (cases "updatePassword d cfg now db req_user b") simp
    then show ?thesis by (blast dest: updatePassword_Inr)
  qed
  then show ?thesis
    using createAndSendToken_no_password by blast
qed

theorem responses_carry_no_password_witness:
  "fst (signup deps0 cfg0 1000 [] amy) = Inr (createAndSendToken cfg0 1000 amy_doc 201)
   \<and> login deps0 cfg0 2000 [amy_doc] amy = Inr (createAndSendToken cfg0 2000 amy_doc 200)
   \<and> fst (resetPassword deps0 cfg0 1000 [amy_pending] ''r3s3t'' new_password)
       = Inr (createAndSendToken cfg0 1000 amy_pending_renewed 200)
   \<and> fst (updatePassword deps0 cfg0 5000 [amy_doc] amy_doc new_password)
       = Inr (createAndSendToken cfg0 5000 amy_renewed 200)
   \<and> (\<exists>tok fs. res_json (createAndSendToken cfg0 1000 amy_doc 201) =
             JObj [(''status'', JStr ''success''), (''token'', JTok tok),
                   (''data'', JObj [(''user'', JObj fs)])]
           \<and> ''password'' \<notin> fst ` set fs)
   \<and> (\<exists>tok fs. res_json (createAndSendToken cfg0 2000 amy_doc 200) =
             JObj [(''status'', JStr ''success''), (''token'', JTok tok),
                   (''data'', JObj [(''user'', JObj fs)])]
           \<and> ''password'' \<notin> fst ` set fs)
   \<and> (\<exists>tok fs. res_json (createAndSendToken cfg0 1000 amy_pending_renewed 200) =
             JObj [(''status'', JStr ''success''), (''token'', JTok tok),
                   (''data'', JObj [(''user'', JObj fs)])]
           \<and> ''password'' \<notin> fst ` set fs)
   \<and> (\<exists>tok fs. res_json (createAndSendToken cfg0 5000 amy_renewed 200) =
             JObj [(''status'', JStr ''success''), (''token'', JTok tok),
                   (''data'', JObj [(''user'', JObj fs)])]
           \<and> ''password'' \<notin> fst ` set fs)"
proof -
  have s: "fst (signup deps0 cfg0 1000 [] amy) = Inr (createAndSendToken cfg0 1000 amy_doc 201)"
    by (simp add: signup_amy)
  have l: "login deps0 cfg0 2000 [amy_doc] amy = Inr (createAndSendToken cfg0 2000 amy_doc 200)"
    by (simp add: login_def findOne_email_def falsy_def amy_def amy_doc_def deps0_def
        toLowerCase_amy)
  have r: "fst (resetPassword deps0 cfg0 1000 [amy_pending] ''r3s3t'' new_password)
       = Inr (createAndSendToken cfg0 1000 amy_pending_renewed 200)"
    by (simp add: resetPassword_amy)
  have u: "fst (updatePassword deps0 cfg0 5000 [amy_doc] amy_doc new_password)
       = Inr (createAndSendToken cfg0 5000 amy_renewed 200)"
    by (simp add: updatePassword_amy)
  note t = responses_carry_no_password [where d = deps0 and cfg = cfg0]
  from s t [where now = 1000 and db = "[]" and b = amy]
  have 1: "\<exists>tok fs. res_json (createAndSendToken cfg0 1000 amy_doc 201) =
             JObj [(''status'', JStr ''success''), (''token'', JTok tok),
                   (''data'', JObj [(''user'', JObj fs)])]
           \<and> ''password'' \<notin> fst ` set fs"
    by blast
  from l t [where now = 2000 and db = "[amy_doc]" and b = amy]
  have 2: "\<exists>tok fs. res_json (createAndSendToken cfg0 2000 amy_doc 200) =
             JObj [(''status'', JStr ''success''), (''token'', JTok tok),
                   (''data'', JObj [(''user'', JObj fs)])]
           \<and> ''password'' \<notin> fst ` set fs"
    by blast
  from r t [where now = 1000 and db = "[amy_pending]" and token = "''r3s3t''" and b = new_password]
  have 3: "\<exists>tok fs. res_json (createAndSendToken cfg0 1000 amy_pending_renewed 200) =
             JObj [(''status'', JStr ''success''), (''token'', JTok tok),
                   (''data'', JObj [(''user'', JObj fs)])]
           \<and> ''password'' \<notin> fst ` set fs"
    by blast
  from u t [where now = 5000 and db = "[amy_doc]" and req_user = amy_doc and b = new_password]
  have 4: "\<exists>tok fs. res_json (createAndSendToken cfg0 5000 amy_renewed 200) =
             JObj [(''status'', JStr ''success''), (''token'', JTok tok),
                   (''data'', JObj [(''user'', JObj fs)])]
           \<and> ''password'' \<notin> fst ` set fs"
    by blast
  from s l r u 1 2 3 4 show ?thesis by blast
qed

subsection \<open>What signup persists\<close>

lemma validate_password_ok:
  "validate_password v = [] \<Longrightarrow> \<exists>p. v = Some p \<and> 8 \<le> length p"
  by (auto simp: validate_password_def required_def split: option.splits if_splits)

lemma validate_ok:
  assumes "validate d u = []"
  shows "validate_email d (email u) = []" and "validate_password (password u) = []"
    and "required ''please confirm your password'' (passwordConfirm u) = []"
  using assms by (simp_all add: validate_def)

text \<open>
  Claim C6, as stated, fails: the password persisted by a successful signup is a one-way
  hash of the submitted password, never the plaintext. The signup of Amy with
  \<^verbatim>\<open>password1\<close> stores \<^verbatim>\<open>password1\<close>.
\<close>

theorem signup_password_counterexample:
  "signup deps0 cfg0 1000 [] amy = (Inr (createAndSendToken cfg0 1000 amy_doc 201), [amy_doc])
   \<and> body_password amy = Some ''password1''
   \<and> password amy_doc = Some ''password1''"
  by (simp add: signup_amy) (simp add: amy_def amy_doc_def)

text \<open>
  Claim C6, amended. For every successful signup, the password persisted on the new
  identity is the submitted password itself, of length at least 8 (the schema under
  \<^verbatim>\<open>src/\<close> validates it and applies no hashing), and the response, of status 201,
  carries a session token signed for the new identity at the time of the request, in
  the cookie and in the body.
\<close>

theorem signup_persists_submitted_password:
  assumes "signup d cfg now db b = (Inr r, db')"
  shows "\<exists>u p. db' = db @ [u] \<and> body_password b = Some p \<and> 8 \<le> length p
           \<and> password u = Some p \<and> res_status r = 201
           \<and> (\<exists>opts. res_cookie r = Some (''jwt'', signToken cfg now (user_id u), opts))
           \<and> (\<exists>fs. res_json r =
                 JObj [(''status'', JStr ''success''), (''token'', JTok (signToken cfg now (user_id u))),
                       (''data'', JObj [(''user'', JObj fs)])])"
proof -
  from assms obtain u where c: "create d db (signup_fields b) = Inr (u, db')"
    and r: "r = createAndSendToken cfg now u 201"
    by (blast dest: signup_Inr)
  from create_Inr [OF c] have db': "db' = db @ [u]" and pw: "password u = body_password b"
    and v: "validate d u = []"
    by (simp_all add: signup_fields_def)
  from validate_ok(2) [OF v] obtain p where p: "password u = Some p" "8 \<le> length p"
    by (blast dest: validate_password_ok)
  from pw p have bp: "body_password b = Some p" by simp
  have "res_status r = 201"
    and "\<exists>opts. res_cookie r = Some (''jwt'', signToken cfg now (user_id u), opts)"
    and "\<exists>fs. res_json r =
           JObj [(''status'', JStr ''success''), (''token'', JTok (signToken cfg now (user_id u))),
                 (''data'', JObj [(''user'', JObj fs)])]"
    unfolding r by (simp_all add: createAndSendToken_def Let_def toJSON_def)
  with db' bp p show ?thesis by blast
qed

theorem signup_persists_submitted_password_witness:
  "\<exists>u p. [amy_doc] = [] @ [u] \<and> body_password amy = Some p \<and> 8 \<le> length p
           \<and> password u = Some p"
  using signup_persists_submitted_password [OF signup_amy] by blast

subsection \<open>Fields forwarded at signup\<close>




subsection \<open>What signup rejects\<close>

text \<open>
  Claim C8, as stated, fails in two places: signup fails with a ValidationError whenever
  password and passwordConfirm differ, and whenever the email duplicates an existing
  identity. The first request below has a well-formed, new email, a password of nine
  characters and a different \<^verbatim>\<open>passwordConfirm\<close>, and it succeeds. The second repeats
  the email of a stored identity and is otherwise valid; it fails with the driver's
  duplicate-key error, which is not a ValidationError.
\<close>

theorem signup_mismatch_counterexample:
  "body_password amy_mismatch = Some ''password1''
   \<and> body_passwordConfirm amy_mismatch = Some ''password2''
   \<and> signup deps0 cfg0 1000 [] amy_mismatch
       = (Inr (createAndSendToken cfg0 1000 (amy_doc\<lparr> passwordConfirm := Some ''password2'' \<rparr>) 201),
          [amy_doc\<lparr> passwordConfirm := Some ''password2'' \<rparr>])
   \<and> signup deps0 cfg0 2000 [amy_doc] amy = (Inl DuplicateKeyError, [amy_doc])"
  by (simp add: signup_def create_def signup_fields_def amy_mismatch_def
      amy_def amy_doc_def deps0_def validate_def validate_email_def validate_password_def
      required_def toLowerCase_amy fresh_id_def Let_def)

text \<open>
  Claim C8, amended. Signup fails with a ValidationError, and stores nothing, whenever
  the submitted email is absent or malformed, whenever the submitted password is absent
  or shorter than 8, and whenever \<^verbatim>\<open>passwordConfirm\<close> is absent or empty. Whenever the
  submitted email, lower-cased, is the email of a stored identity, signup fails and
  stores nothing: with the driver's duplicate-key error when name, email, password and
  \<^verbatim>\<open>passwordConfirm\<close> pass the validators, with a ValidationError otherwise. (A
  \<^verbatim>\<open>passwordConfirm\<close> that differs from the password is not a reason to fail.)
\<close>

theorem signup_rejects_invalid:
  "((case body_email b of None \<Rightarrow> True | Some e \<Rightarrow> \<not> isEmail d (toLowerCase e))
      \<or> (case body_password b of None \<Rightarrow> True | Some p \<Rightarrow> length p < 8)
      \<or> falsy (body_passwordConfirm b)
     \<longrightarrow> (\<exists>msgs. signup d cfg now db b = (Inl (ValidationError msgs), db)))
   \<and> (body_email b = Some e \<and> (\<exists>u \<in> set db. email u = Some (toLowerCase e))
     \<longrightarrow> (\<exists>msgs. signup d cfg now db b = (Inl (ValidationError msgs), db))
         \<or> signup d cfg now db b = (Inl DuplicateKeyError, db))
   \<and> (body_email b = Some e \<and> (\<exists>u \<in> set db. email u = Some (toLowerCase e))
       \<and> \<not> falsy (body_name b) \<and> e \<noteq> [] \<and> isEmail d (toLowerCase e)
       \<and> body_password b = Some p \<and> 8 \<le> length p \<and> \<not> falsy (body_passwordConfirm b)
     \<longrightarrow> signup d cfg now db b = (Inl DuplicateKeyError, db))"
proof (intro conjI impI)
  assume bad: "(case body_email b of None \<Rightarrow> True | Some e \<Rightarrow> \<not> isEmail d (toLowerCase e))
      \<or> (case body_password b of None \<Rightarrow> True | Some p \<Rightarrow> length p < 8)
      \<or> falsy (body_passwordConfirm b)"
  show "\<exists>msgs. signup d cfg now db b = (Inl (ValidationError msgs), db)"
  proof (cases "create d db (signup_fields b)")
    case (Inl err)
    have "err \<noteq> DuplicateKeyError"
    proof
      assume "err = DuplicateKeyError"
      with Inl have v: "validate d \<lparr> name = body_name b, email = map_option toLowerCase (body_email b),
                  password = body_password b, passwordConfirm = body_passwordConfirm b,
                  passwordChangedAt = None, role = None,
                  user_id = fresh_id db, photo = None,
                  passwordResetToken = None, passwordResetExpires = None \<rparr> = []"
        by (auto simp: create_def signup_fields_def Let_def split: if_splits)
      from bad v show False
        by (auto simp: validate_def validate_email_def validate_password_def required_def
            falsy_def split: option.splits if_splits)
    qed
    with Inl obtain msgs where "err = ValidationError msgs"
      by (auto simp: create_def Let_def split: if_splits)
    with Inl show ?thesis by (simp add: signup_def)
  next
    case (Inr q)
    obtain u db' where q: "q = (u, db')" by (cases q)
    from create_Inr [OF Inr [unfolded q]]
    have v: "validate d u = []" and e: "email u = map_option toLowerCase (body_email b)"
      and pw: "password u = body_password b" and pc: "passwordConfirm u = body_passwordConfirm b"
      by (auto simp: signup_fields_def)
    from validate_ok(1) [OF v] e have "\<exists>s. body_email b = Some s \<and> isEmail d (toLowerCase s)"
      by (auto simp: validate_email_def required_def split: option.splits if_splits)
    moreover from validate_ok(2) [OF v] pw have "\<exists>s. body_password b = Some s \<and> 8 \<le> length s"
      by (auto dest: validate_password_ok)
    moreover from validate_ok(3) [OF v] pc have "\<not> falsy (body_passwordConfirm b)"
      by (auto simp: required_def falsy_def split: option.splits if_splits)
    ultimately have False
      using bad by (auto split: option.splits)
    then show ?thesis ..
  qed
next
  assume "body_email b = Some e \<and> (\<exists>u \<in> set db. email u = Some (toLowerCase e))"
  then show "(\<exists>msgs. signup d cfg now db b = (Inl (ValidationError msgs), db))
         \<or> signup d cfg now db b = (Inl DuplicateKeyError, db)"
    by (auto simp: signup_def create_def signup_fields_def Let_def)
next
  assume "body_email b = Some e \<and> (\<exists>u \<in> set db. email u = Some (toLowerCase e))
       \<and> \<not> falsy (body_name b) \<and> e \<noteq> [] \<and> isEmail d (toLowerCase e)
       \<and> body_password b = Some p \<and> 8 \<le> length p \<and> \<not> falsy (body_passwordConfirm b)"
  then show "signup d cfg now db b = (Inl DuplicateKeyError, db)"
    by (auto simp: signup_def create_def signup_fields_def Let_def validate_def
        validate_email_def validate_password_def required_def falsy_def toLowerCase_def
        split: option.splits)
qed

theorem signup_rejects_invalid_witness:
  "(\<exists>msgs. signup deps0 cfg0 1000 [] (amy\<lparr> body_email := Some ''amy.x.com'' \<rparr>)
          = (Inl (ValidationError msgs), []))
   \<and> (\<exists>msgs. signup deps0 cfg0 1000 [] (amy\<lparr> body_password := Some ''short'' \<rparr>)
          = (Inl (ValidationError msgs), []))
   \<and> (\<exists>msgs. signup deps0 cfg0 1000 [] (amy\<lparr> body_passwordConfirm := None \<rparr>)
          = (Inl (ValidationError msgs), []))
   \<and> signup deps0 cfg0 2000 [amy_doc] amy = (Inl DuplicateKeyError, [amy_doc])"
proof -
  note t = signup_rejects_invalid [where d = deps0 and cfg = cfg0]
  have lower: "toLowerCase ''amy.x.com'' = ''amy.x.com''"
    by (simp add: toLowerCase_def toLowerChar_def)
  have "\<not> isEmail deps0 (toLowerCase ''amy.x.com'')"
    by (simp add: lower deps0_def)
  with t [where b = "amy\<lparr> body_email := Some ''amy.x.com'' \<rparr>" and now = 1000 and db = "[]"]
  have 1: "\<exists>msgs. signup deps0 cfg0 1000 [] (amy\<lparr> body_email := Some ''amy.x.com'' \<rparr>)
          = (Inl (ValidationError msgs), [])"
    by simp
  have "length ''short'' < 8" by simp
  with t [where b = "amy\<lparr> body_password := Some ''short'' \<rparr>" and now = 1000 and db = "[]"]
  have 2: "\<exists>msgs. signup deps0 cfg0 1000 [] (amy\<lparr> body_password := Some ''short'' \<rparr>)
          = (Inl (ValidationError msgs), [])"
    by simp
  have "falsy (body_passwordConfirm (amy\<lparr> body_passwordConfirm := None \<rparr>))"
    by (simp add: falsy_def)
  with t [where b = "amy\<lparr> body_passwordConfirm := None \<rparr>" and now = 1000 and db = "[]"]
  have 3: "\<exists>msgs. signup deps0 cfg0 1000 [] (amy\<lparr> body_passwordConfirm := None \<rparr>)
          = (Inl (ValidationError msgs), [])"
    by blast
  have dup: "body_email amy = Some ''amy@x.com''
       \<and> (\<exists>u \<in> set [amy_doc]. email u = Some (toLowerCase ''amy@x.com''))
       \<and> \<not> falsy (body_name amy) \<and> ''amy@x.com'' \<noteq> [] \<and> isEmail deps0 (toLowerCase ''amy@x.com'')
       \<and> body_password amy = Some ''password1'' \<and> 8 \<le> length ''password1''
       \<and> \<not> falsy (body_passwordConfirm amy)"
    by (simp add: amy_def amy_doc_def deps0_def falsy_def toLowerCase_amy)
  with t [where b = amy and now = 2000 and db = "[amy_doc]" and e = "''amy@x.com''"
      and p = "''password1''"]
  have 4: "signup deps0 cfg0 2000 [amy_doc] amy = (Inl DuplicateKeyError, [amy_doc])"
    by blast
  from 1 2 3 4 show ?thesis by blast
qed

subsection \<open>Failed delivery\<close>




subsection \<open>Resetting a password\<close>




subsection \<open>Issuing a session and authenticating with it\<close>

lemma bearer_token_signed:
  "bearer_token (Some (''Bearer'', [signToken cfg now i])) = Some (signToken cfg now i)"
  by (simp add: bearer_token_def startsWith_def signToken_def jwt_sign_def)

lemma protect_signed:
  "protect cfg now' db (Some (''Bearer'', [signToken cfg now i])) =
     (if now div 1000 + JWT_EXPIRES_IN cfg \<le> now' div 1000 then Inl TokenExpiredError
      else case findById db i of
             None \<Rightarrow> Inl (AppError ''The user belonging to this token does no longer exsist.'' (Some 401))
           | Some currentUser \<Rightarrow>
               if passwordChangedAfter currentUser (now div 1000)
               then Inl (AppError ''The user recently changed their password! Please login again.'' (Some 401))
               else Inr currentUser)"
  unfolding protect_def bearer_token_signed
  by (simp add: signToken_def jwt_sign_def split: option.splits)

text \<open>
  Claim C9, as stated, fails: the token issued for an identity authenticates as that
  identity provided no password change intervened. Amy's token issued at time 1000 is
  refused once its 90 days have passed, although Amy is stored and has never changed her
  password.
\<close>

theorem session_roundtrip_counterexample:
  "findById [amy_doc] (user_id amy_doc) = Some amy_doc
   \<and> passwordChangedAt amy_doc = None
   \<and> res_cookie (createAndSendToken cfg0 1000 amy_doc 200)
       = Some (''jwt'', signToken cfg0 1000 (user_id amy_doc),
               \<lparr> expires = 7776001000, httpOnly = True, secure = False \<rparr>)
   \<and> protect cfg0 7776001000 [amy_doc] (Some (''Bearer'', [signToken cfg0 1000 (user_id amy_doc)]))
       = Inl TokenExpiredError"
  by (simp add: protect_signed) (simp add: findById_def amy_doc_def cfg0_def createAndSendToken_def Let_def)

text \<open>
  Claim C9, amended. The token that \<^verbatim>\<open>createAndSendToken\<close> issues for an identity at
  time \<open>now\<close>, presented as a bearer token at a time \<open>now'\<close> before its expiry,
  authenticates as the stored identity with the same id, provided an identity with that
  id is still stored and its \<^verbatim>\<open>passwordChangedAt\<close> is not later than the token's
  \<^verbatim>\<open>iat\<close>. Issue time, expiry and clock count in whole seconds: the token is unexpired
  when \<open>now' div 1000 < now div 1000 + JWT_EXPIRES_IN\<close>, and its \<^verbatim>\<open>iat\<close> is
  \<open>now div 1000\<close>.
\<close>

theorem session_roundtrip:
  assumes "res_cookie (createAndSendToken cfg now u code) = Some (nm, token, opts)"
    and "findById db (user_id u) = Some u'"
    and "now' div 1000 < now div 1000 + JWT_EXPIRES_IN cfg"
    and "\<not> passwordChangedAfter u' (now div 1000)"
  shows "protect cfg now' db (Some (''Bearer'', [token])) = Inr u' \<and> user_id u' = user_id u"
proof -
  from assms(1) have "token = signToken cfg now (user_id u)"
    by (simp add: createAndSendToken_def Let_def)
  with assms(2-4) show ?thesis
    by (simp add: protect_signed findById_Some)
qed

theorem session_roundtrip_witness:
  "protect cfg0 7776000999 [amy_doc] (Some (''Bearer'', [signToken cfg0 1000 (user_id amy_doc)]))
     = Inr amy_doc"
proof -
  have c: "res_cookie (createAndSendToken cfg0 1000 amy_doc 200)
       = Some (''jwt'', signToken cfg0 1000 (user_id amy_doc),
               \<lparr> expires = 7776001000, httpOnly = True, secure = False \<rparr>)"
    by (simp add: createAndSendToken_def Let_def cfg0_def)
  have f: "findById [amy_doc] (user_id amy_doc) = Some amy_doc"
    by (simp add: findById_def)
  have t: "(7776000999::int) div 1000 < 1000 div 1000 + JWT_EXPIRES_IN cfg0"
    by (simp add: cfg0_def)
  have n: "\<not> passwordChangedAfter amy_doc (1000 div 1000)"
    by (simp add: passwordChangedAfter_def amy_doc_def)
  from session_roundtrip [OF c f t n] show ?thesis by simp
qed

subsection \<open>Password change and earlier tokens\<close>




end
